theory Spec2Isabelle
  imports Complex_Main
begin

section \<open>Python values\<close>

text \<open>
  A Python \<open>str\<close> is a sequence of Unicode code points; it is modelled as a list of
  natural numbers.  \<open>U\<close> turns an ASCII literal of the theory into such a string.
\<close>

type_synonym pystr = "nat list"

definition U :: "string \<Rightarrow> pystr" where
  "U s = map of_char s"

text \<open>
  An exception is a value: the name of its class and its message (\<open>str(e)\<close>).  Only
  instances of \<open>Exception\<close> are modelled, the ones an \<open>except Exception\<close> clause
  catches; interpreter signals (\<open>KeyboardInterrupt\<close>, \<open>SystemExit\<close>) are outside the model.
  A computation that may raise returns \<open>py_exception + 'a\<close>, with \<open>Inl\<close> for the raise.
\<close>

datatype py_exception = PyExc (exc_class: string) (exc_msg: pystr)

section \<open>The classifier state of \<open>DocumentParser\<close>\<close>

text \<open>
  The entry \<open>{"timestamp": ..., "samples": len(df)}\<close> that \<open>train_model\<close> appends to
  \<open>training_history\<close>.
\<close>

record training_record =
  timestamp :: pystr
  samples :: nat

text \<open>
  The mutable fields of a \<open>DocumentParser\<close> instance that training, prediction and
  persistence read and write.  The scikit-learn objects are opaque: \<open>'v\<close> is a
  \<open>TfidfVectorizer\<close>, \<open>'c\<close> a classifier (\<open>RandomForestClassifier\<close> or
  \<open>LogisticRegression\<close>), \<open>'l\<close> a \<open>LabelEncoder\<close>.
\<close>

record ('v, 'c, 'l) parser_state =
  vectorizer :: 'v
  classifier :: 'c
  label_encoder :: 'l
  is_trained :: bool
  training_history :: "training_record list"
  last_training_samples :: nat

text \<open>A row of the training frame: the columns \<open>text\<close> and \<open>document_type\<close>.\<close>

record sample =
  sample_text :: pystr
  document_type :: pystr

text \<open>
  The scikit-learn calls the class makes, as parameters (\<open>'f\<close> is a feature row).  Each
  fitting or transforming call returns the fitted object or result, or raises.
\<close>

record ('v, 'c, 'l, 'f) sklearn =
  new_vectorizer :: 'v
  new_random_forest :: 'c
  new_logistic_regression :: 'c
  new_label_encoder :: 'l
  vec_fit_transform :: "'v \<Rightarrow> pystr list \<Rightarrow> py_exception + ('v \<times> 'f list)"
  vec_transform :: "'v \<Rightarrow> pystr \<Rightarrow> py_exception + 'f"
  le_fit_transform :: "'l \<Rightarrow> pystr list \<Rightarrow> py_exception + ('l \<times> nat list)"
  le_inverse_transform :: "'l \<Rightarrow> nat \<Rightarrow> py_exception + pystr"
  split_train_test ::
    "'f list \<Rightarrow> nat list \<Rightarrow> py_exception + ('f list \<times> 'f list \<times> nat list \<times> nat list)"
  clf_fit :: "'c \<Rightarrow> 'f list \<Rightarrow> nat list \<Rightarrow> py_exception + 'c"
  clf_predict :: "'c \<Rightarrow> 'f list \<Rightarrow> py_exception + nat list"
  classification_report :: "'l \<Rightarrow> nat list \<Rightarrow> nat list \<Rightarrow> py_exception + unit"
  create_training_data :: "nat \<Rightarrow> sample list"

text \<open>The state \<open>__init__\<close> builds before it loads any model.\<close>

definition init_state :: "('v, 'c, 'l, 'f) sklearn \<Rightarrow> ('v, 'c, 'l) parser_state" where
  "init_state sk =
     \<lparr>vectorizer = new_vectorizer sk, classifier = new_random_forest sk,
      label_encoder = new_label_encoder sk, is_trained = False,
      training_history = [], last_training_samples = 0\<rparr>"

subsection \<open>\<open>predict_document_type\<close>\<close>

definition predict_document_type ::
  "('v, 'c, 'l, 'f) sklearn \<Rightarrow> ('v, 'c, 'l) parser_state \<Rightarrow> pystr \<Rightarrow> py_exception + pystr"
where
  "predict_document_type sk s text =
     (if \<not> is_trained s
      then Inl (PyExc ''ValueError'' (U ''Model must be trained before prediction''))
      else case vec_transform sk (vectorizer s) text of
             Inl e \<Rightarrow> Inl e
           | Inr features \<Rightarrow>
               (case clf_predict sk (classifier s) [features] of
                  Inl e \<Rightarrow> Inl e
                | Inr prediction \<Rightarrow>
                    (case prediction of
                       [] \<Rightarrow> Inl (PyExc ''IndexError'' (U ''index 0 is out of bounds''))
                     | p # _ \<Rightarrow> le_inverse_transform sk (label_encoder s) p)))"

subsection \<open>\<open>train_model\<close>\<close>

text \<open>
  \<open>train_model\<close> always returns \<open>self\<close>; what tells a successful call from a failed
  one is which log line it writes.  The model returns the new state together with
  that line: \<open>NoData\<close> is "No training data available", \<open>PipelineError\<close> is
  "Error in training pipeline", \<open>Trained\<close> is the path through the first
  \<open>try\<close> block, \<open>TrainedFallback\<close> the path through "Falling back to
  LogisticRegression".
\<close>

datatype train_log = NoData | PipelineError py_exception | Trained | TrainedFallback py_exception

text \<open>
  The inner \<open>try\<close> block: fit the forest, predict the held-out part, log the report.
\<close>

definition fit_and_report ::
  "('v, 'c, 'l, 'f) sklearn \<Rightarrow> 'c \<Rightarrow> 'l \<Rightarrow> 'f list \<Rightarrow> 'f list \<Rightarrow> nat list \<Rightarrow> nat list
     \<Rightarrow> py_exception + 'c"
where
  "fit_and_report sk c l X_train X_test y_train y_test =
     (case clf_fit sk c X_train y_train of
        Inl e \<Rightarrow> Inl e
      | Inr c' \<Rightarrow>
          (case clf_predict sk c' X_test of
             Inl e \<Rightarrow> Inl e
           | Inr y_pred \<Rightarrow>
               (case classification_report sk l y_test y_pred of
                  Inl e \<Rightarrow> Inl e
                | Inr _ \<Rightarrow> Inr c')))"

definition train_model ::
  "('v, 'c, 'l, 'f) sklearn \<Rightarrow> pystr \<Rightarrow> sample list option \<Rightarrow> ('v, 'c, 'l) parser_state
     \<Rightarrow> ('v, 'c, 'l) parser_state \<times> train_log"
where
  "train_model sk now df_arg s =
     (let df = (case df_arg of None \<Rightarrow> create_training_data sk 1000 | Some d \<Rightarrow> d);
          training_info = \<lparr>timestamp = now, samples = length df\<rparr>
      in if length df < 10 \<and> length df = 0 then (s, NoData)
         else
           case vec_fit_transform sk (vectorizer s) (map sample_text df) of
             Inl e \<Rightarrow> (s, PipelineError e)
           | Inr (v, X) \<Rightarrow>
               (case le_fit_transform sk (label_encoder s) (map document_type df) of
                  Inl e \<Rightarrow> (s\<lparr>vectorizer := v\<rparr>, PipelineError e)
                | Inr (l, y) \<Rightarrow>
                    (let s1 = s\<lparr>vectorizer := v, label_encoder := l\<rparr>
                     in case split_train_test sk X y of
                          Inl e \<Rightarrow> (s1, PipelineError e)
                        | Inr (X_train, X_test, y_train, y_test) \<Rightarrow>
                            (case fit_and_report sk (classifier s1) l X_train X_test y_train y_test of
                               Inr c \<Rightarrow>
                                 (s1\<lparr>classifier := c, is_trained := True,
                                     last_training_samples := length df,
                                     training_history := training_history s1 @ [training_info]\<rparr>,
                                  Trained)
                             | Inl e \<Rightarrow>
                                 (case clf_fit sk (new_logistic_regression sk) X_train y_train of
                                    Inl e' \<Rightarrow>
                                      (s1\<lparr>classifier := new_logistic_regression sk\<rparr>,
                                       PipelineError e')
                                  | Inr c \<Rightarrow>
                                      (s1\<lparr>classifier := c, is_trained := True,
                                          last_training_samples := length df,
                                          training_history := training_history s1 @ [training_info]\<rparr>,
                                       TrainedFallback e))))))"

definition train_succeeded :: "train_log \<Rightarrow> bool" where
  "train_succeeded lg = (case lg of Trained \<Rightarrow> True | TrainedFallback _ \<Rightarrow> True | _ \<Rightarrow> False)"

text \<open>The number of rows \<open>len(df)\<close> a call trains on.\<close>

definition sample_count :: "('v, 'c, 'l, 'f) sklearn \<Rightarrow> sample list option \<Rightarrow> nat" where
  "sample_count sk df_arg =
     length (case df_arg of None \<Rightarrow> create_training_data sk 1000 | Some d \<Rightarrow> d)"

subsection \<open>\<open>save_model\<close> and \<open>load_model\<close>\<close>

text \<open>
  What \<open>joblib.load\<close> finds at a path: a directory, a file it cannot turn into a
  dictionary (truncated, not a pickle, not a dictionary), or a pickled dictionary, whose
  keys may each be missing.  \<open>joblib.dump\<close> followed by \<open>joblib.load\<close> gives the
  dumped dictionary back.
\<close>

record ('v, 'c, 'l) model_dict =
  d_vectorizer :: "'v option"
  d_classifier :: "'c option"
  d_label_encoder :: "'l option"
  d_is_trained :: "bool option"
  d_training_history :: "training_record list option"
  d_last_training_samples :: "nat option"

datatype ('v, 'c, 'l) fs_entry = Directory | Unreadable | Pickled "('v, 'c, 'l) model_dict"

type_synonym ('v, 'c, 'l) filesystem = "pystr \<rightharpoonup> ('v, 'c, 'l) fs_entry"

text \<open>
  The operating system, as parameters: \<open>os.path.dirname\<close>, whether
  \<open>os.makedirs(dir, exist_ok=True)\<close> raises, whether \<open>joblib.dump\<close> raises, and whether
  a failed dump leaves a damaged file behind.
\<close>

record os_env =
  dirname :: "pystr \<Rightarrow> pystr"
  makedirs_error :: "pystr \<Rightarrow> py_exception option"
  dump_error :: "pystr \<Rightarrow> py_exception option"
  dump_partial :: "pystr \<Rightarrow> bool"

definition model_data_of :: "('v, 'c, 'l) parser_state \<Rightarrow> ('v, 'c, 'l) model_dict" where
  "model_data_of s =
     \<lparr>d_vectorizer = Some (vectorizer s), d_classifier = Some (classifier s),
      d_label_encoder = Some (label_encoder s), d_is_trained = Some (is_trained s),
      d_training_history = Some (training_history s),
      d_last_training_samples = Some (last_training_samples s)\<rparr>"

text \<open>
  \<open>save_model\<close> returns the exception it raises, if any, and the file system it
  leaves.
\<close>

definition save_model ::
  "os_env \<Rightarrow> ('v, 'c, 'l) parser_state \<Rightarrow> pystr \<Rightarrow> ('v, 'c, 'l) filesystem
     \<Rightarrow> py_exception option \<times> ('v, 'c, 'l) filesystem"
where
  "save_model os s path fs =
     (if \<not> is_trained s
      then (Some (PyExc ''ValueError'' (U ''Model must be trained before saving'')), fs)
      else case makedirs_error os (dirname os path) of
             Some e \<Rightarrow> (Some e, fs)
           | None \<Rightarrow>
               (case dump_error os path of
                  Some e \<Rightarrow> (Some e, if dump_partial os path then fs(path \<mapsto> Unreadable) else fs)
                | None \<Rightarrow> (None, fs(path \<mapsto> Pickled (model_data_of s)))))"

text \<open>
  The body of the \<open>try\<close> block of \<open>load_model\<close>: \<open>model_data['k']\<close> raises
  \<open>KeyError\<close> on a missing key, \<open>model_data.get('k', default)\<close> does not.
\<close>

definition load_body ::
  "('v, 'c, 'l) parser_state \<Rightarrow> ('v, 'c, 'l) fs_entry \<Rightarrow> py_exception + ('v, 'c, 'l) parser_state"
where
  "load_body s entry =
     (case entry of
        Directory \<Rightarrow> Inl (PyExc ''IsADirectoryError'' (U ''Is a directory''))
      | Unreadable \<Rightarrow> Inl (PyExc ''UnpicklingError'' (U ''invalid load key''))
      | Pickled d \<Rightarrow>
          (case d_vectorizer d of
             None \<Rightarrow> Inl (PyExc ''KeyError'' (U ''vectorizer''))
           | Some v \<Rightarrow>
               (case d_classifier d of
                  None \<Rightarrow> Inl (PyExc ''KeyError'' (U ''classifier''))
                | Some c \<Rightarrow>
                    (case d_label_encoder d of
                       None \<Rightarrow> Inl (PyExc ''KeyError'' (U ''label_encoder''))
                     | Some l \<Rightarrow>
                         (case d_is_trained d of
                            None \<Rightarrow> Inl (PyExc ''KeyError'' (U ''is_trained''))
                          | Some t \<Rightarrow>
                              Inr (s\<lparr>vectorizer := v, classifier := c, label_encoder := l,
                                     is_trained := t,
                                     training_history :=
                                       (case d_training_history d of None \<Rightarrow> [] | Some h \<Rightarrow> h),
                                     last_training_samples :=
                                       (case d_last_training_samples d of
                                          None \<Rightarrow> 0 | Some n \<Rightarrow> n)\<rparr>))))))"

text \<open>
  The \<open>except Exception\<close> handler of \<open>load_model\<close>: new scikit-learn objects and
  \<open>is_trained = False\<close>.  It leaves \<open>training_history\<close> and
  \<open>last_training_samples\<close> as they are.
\<close>

definition reset_components ::
  "('v, 'c, 'l, 'f) sklearn \<Rightarrow> ('v, 'c, 'l) parser_state \<Rightarrow> ('v, 'c, 'l) parser_state"
where
  "reset_components sk s =
     s\<lparr>vectorizer := new_vectorizer sk, classifier := new_random_forest sk,
       label_encoder := new_label_encoder sk, is_trained := False\<rparr>"

definition load_model ::
  "('v, 'c, 'l, 'f) sklearn \<Rightarrow> ('v, 'c, 'l) parser_state \<Rightarrow> pystr \<Rightarrow> ('v, 'c, 'l) filesystem
     \<Rightarrow> py_exception + ('v, 'c, 'l) parser_state"
where
  "load_model sk s path fs =
     (case fs path of
        None \<Rightarrow> Inr s
      | Some entry \<Rightarrow>
          (case load_body s entry of
             Inr s' \<Rightarrow> Inr s'
           | Inl e \<Rightarrow> Inr (reset_components sk s)))"

subsection \<open>A small instance for running the model\<close>

text \<open>
  A toy scikit-learn: the vectorizer keeps the number of texts it was fitted on, a
  feature row is the length of the text, the classifier is a threshold on it, and the
  label encoder is the list of labels.
\<close>

definition toy_sklearn :: "(nat, nat, pystr list, nat) sklearn" where
  "toy_sklearn =
     \<lparr>new_vectorizer = 0, new_random_forest = 0, new_logistic_regression = 1,
      new_label_encoder = [],
      vec_fit_transform = (\<lambda>v texts. Inr (length texts, map length texts)),
      vec_transform = (\<lambda>v text. Inr (length text)),
      le_fit_transform = (\<lambda>l labels. Inr (remdups labels, map (\<lambda>_. 0) labels)),
      le_inverse_transform =
        (\<lambda>l i. if i < length l then Inr (l ! i)
               else Inl (PyExc ''ValueError'' (U ''y contains previously unseen labels''))),
      split_train_test = (\<lambda>X y. Inr (X, X, y, y)),
      clf_fit = (\<lambda>c X y. Inr (Suc c)),
      clf_predict = (\<lambda>c X. Inr (map (\<lambda>_. 0) X)),
      classification_report = (\<lambda>l y_test y_pred. Inr ()),
      create_training_data = (\<lambda>n. replicate n \<lparr>sample_text = U ''Receipt'', document_type = U ''receipt''\<rparr>)\<rparr>"

definition toy_trained :: "(nat, nat, pystr list) parser_state" where
  "toy_trained =
     \<lparr>vectorizer = 2, classifier = 1, label_encoder = [U ''invoice''], is_trained = True,
      training_history = [\<lparr>timestamp = U ''2024-01-01T00:00:00'', samples = 2\<rparr>],
      last_training_samples = 2\<rparr>"

definition toy_os :: os_env where
  "toy_os =
     \<lparr>dirname = (\<lambda>p. U ''models''), makedirs_error = (\<lambda>d. None),
      dump_error = (\<lambda>p. None), dump_partial = (\<lambda>p. False)\<rparr>"

definition toy_frame :: "nat \<Rightarrow> sample list" where
  "toy_frame n = replicate n \<lparr>sample_text = U ''Invoice'', document_type = U ''invoice''\<rparr>"

text \<open>
  The artifacts on which the \<open>try\<close> block of \<open>load_model\<close> raises: anything that
  is not a pickled dictionary, and a dictionary without one of the four keys read with
  \<open>model_data[...]\<close>.
\<close>

definition corrupt :: "('v, 'c, 'l) fs_entry \<Rightarrow> bool" where
  "corrupt entry =
     (case entry of
        Directory \<Rightarrow> True
      | Unreadable \<Rightarrow> True
      | Pickled d \<Rightarrow>
          d_vectorizer d = None \<or> d_classifier d = None \<or> d_label_encoder d = None \<or>
          d_is_trained d = None)"

definition toy_once :: "(nat, nat, pystr list) parser_state" where
  "toy_once =
     fst (train_model toy_sklearn (U ''t1'') (Some (toy_frame 12)) (init_state toy_sklearn))"

definition toy_twice :: "(nat, nat, pystr list) parser_state" where
  "toy_twice = fst (train_model toy_sklearn (U ''t2'') (Some (toy_frame 15)) toy_once)"

section \<open>Character classes of Python's \<open>re\<close> and \<open>str\<close>\<close>

text \<open>
  \<open>str.isspace\<close>, which is also the class \<open>\s\<close> of a \<open>str\<close> pattern.
\<close>

definition is_space :: "nat \<Rightarrow> bool" where
  "is_space c =
     ((9 \<le> c \<and> c \<le> 13) \<or> (28 \<le> c \<and> c \<le> 32) \<or> c = 133 \<or> c = 160 \<or> c = 5760 \<or>
      (8192 \<le> c \<and> c \<le> 8202) \<or> c = 8232 \<or> c = 8233 \<or> c = 8239 \<or> c = 8287 \<or> c = 12288)"

definition in_ranges :: "(nat \<times> nat) list \<Rightarrow> nat \<Rightarrow> bool" where
  "in_ranges rs c = list_ex (\<lambda>(lo, hi). lo \<le> c \<and> c \<le> hi) rs"

text \<open>
  The decimal digits beyond ASCII (\<open>str.isdecimal\<close>, Unicode 14.0, the table of
  CPython 3.11), as inclusive ranges of code points.
\<close>

definition decimal_ranges :: "(nat \<times> nat) list" where
  "decimal_ranges =
     [
      (1632, 1641), (1776, 1785), (1984, 1993), (2406, 2415), (2534, 2543), (2662, 2671),
      (2790, 2799), (2918, 2927), (3046, 3055), (3174, 3183), (3302, 3311), (3430, 3439),
      (3558, 3567), (3664, 3673), (3792, 3801), (3872, 3881), (4160, 4169), (4240, 4249),
      (6112, 6121), (6160, 6169), (6470, 6479), (6608, 6617), (6784, 6793), (6800, 6809),
      (6992, 7001), (7088, 7097), (7232, 7241), (7248, 7257), (42528, 42537), (43216, 43225),
      (43264, 43273), (43472, 43481), (43504, 43513), (43600, 43609), (44016, 44025),
      (65296, 65305), (66720, 66729), (68912, 68921), (69734, 69743), (69872, 69881),
      (69942, 69951), (70096, 70105), (70384, 70393), (70736, 70745), (70864, 70873),
      (71248, 71257), (71360, 71369), (71472, 71481), (71904, 71913), (72016, 72025),
      (72784, 72793), (73040, 73049), (73120, 73129), (92768, 92777), (92864, 92873),
      (93008, 93017), (120782, 120831), (123200, 123209), (123632, 123641), (125264, 125273),
      (130032, 130041)]"

text \<open>The class \<open>\d\<close> of a \<open>str\<close> pattern.\<close>

definition is_digit :: "nat \<Rightarrow> bool" where
  "is_digit c = (if c < 128 then 48 \<le> c \<and> c \<le> 57 else in_ranges decimal_ranges c)"

text \<open>
  The alphanumeric code points beyond ASCII (\<open>str.isalnum\<close>, Unicode 14.0), as
  inclusive ranges.
\<close>

definition alnum_ranges :: "(nat \<times> nat) list" where
  "alnum_ranges =
     [
      (170, 170), (178, 179), (181, 181), (185, 186), (188, 190), (192, 214), (216, 246),
      (248, 705), (710, 721), (736, 740), (748, 748), (750, 750), (880, 884), (886, 887),
      (890, 893), (895, 895), (902, 902), (904, 906), (908, 908), (910, 929), (931, 1013),
      (1015, 1153), (1162, 1327), (1329, 1366), (1369, 1369), (1376, 1416), (1488, 1514),
      (1519, 1522), (1568, 1610), (1632, 1641), (1646, 1647), (1649, 1747), (1749, 1749),
      (1765, 1766), (1774, 1788), (1791, 1791), (1808, 1808), (1810, 1839), (1869, 1957),
      (1969, 1969), (1984, 2026), (2036, 2037), (2042, 2042), (2048, 2069), (2074, 2074),
      (2084, 2084), (2088, 2088), (2112, 2136), (2144, 2154), (2160, 2183), (2185, 2190),
      (2208, 2249), (2308, 2361), (2365, 2365), (2384, 2384), (2392, 2401), (2406, 2415),
      (2417, 2432), (2437, 2444), (2447, 2448), (2451, 2472), (2474, 2480), (2482, 2482),
      (2486, 2489), (2493, 2493), (2510, 2510), (2524, 2525), (2527, 2529), (2534, 2545),
      (2548, 2553), (2556, 2556), (2565, 2570), (2575, 2576), (2579, 2600), (2602, 2608),
      (2610, 2611), (2613, 2614), (2616, 2617), (2649, 2652), (2654, 2654), (2662, 2671),
      (2674, 2676), (2693, 2701), (2703, 2705), (2707, 2728), (2730, 2736), (2738, 2739),
      (2741, 2745), (2749, 2749), (2768, 2768), (2784, 2785), (2790, 2799), (2809, 2809),
      (2821, 2828), (2831, 2832), (2835, 2856), (2858, 2864), (2866, 2867), (2869, 2873),
      (2877, 2877), (2908, 2909), (2911, 2913), (2918, 2927), (2929, 2935), (2947, 2947),
      (2949, 2954), (2958, 2960), (2962, 2965), (2969, 2970), (2972, 2972), (2974, 2975),
      (2979, 2980), (2984, 2986), (2990, 3001), (3024, 3024), (3046, 3058), (3077, 3084),
      (3086, 3088), (3090, 3112), (3114, 3129), (3133, 3133), (3160, 3162), (3165, 3165),
      (3168, 3169), (3174, 3183), (3192, 3198), (3200, 3200), (3205, 3212), (3214, 3216),
      (3218, 3240), (3242, 3251), (3253, 3257), (3261, 3261), (3293, 3294), (3296, 3297),
      (3302, 3311), (3313, 3314), (3332, 3340), (3342, 3344), (3346, 3386), (3389, 3389),
      (3406, 3406), (3412, 3414), (3416, 3425), (3430, 3448), (3450, 3455), (3461, 3478),
      (3482, 3505), (3507, 3515), (3517, 3517), (3520, 3526), (3558, 3567), (3585, 3632),
      (3634, 3635), (3648, 3654), (3664, 3673), (3713, 3714), (3716, 3716), (3718, 3722),
      (3724, 3747), (3749, 3749), (3751, 3760), (3762, 3763), (3773, 3773), (3776, 3780),
      (3782, 3782), (3792, 3801), (3804, 3807), (3840, 3840), (3872, 3891), (3904, 3911),
      (3913, 3948), (3976, 3980), (4096, 4138), (4159, 4169), (4176, 4181), (4186, 4189),
      (4193, 4193), (4197, 4198), (4206, 4208), (4213, 4225), (4238, 4238), (4240, 4249),
      (4256, 4293), (4295, 4295), (4301, 4301), (4304, 4346), (4348, 4680), (4682, 4685),
      (4688, 4694), (4696, 4696), (4698, 4701), (4704, 4744), (4746, 4749), (4752, 4784),
      (4786, 4789), (4792, 4798), (4800, 4800), (4802, 4805), (4808, 4822), (4824, 4880),
      (4882, 4885), (4888, 4954), (4969, 4988), (4992, 5007), (5024, 5109), (5112, 5117),
      (5121, 5740), (5743, 5759), (5761, 5786), (5792, 5866), (5870, 5880), (5888, 5905),
      (5919, 5937), (5952, 5969), (5984, 5996), (5998, 6000), (6016, 6067), (6103, 6103),
      (6108, 6108), (6112, 6121), (6128, 6137), (6160, 6169), (6176, 6264), (6272, 6276),
      (6279, 6312), (6314, 6314), (6320, 6389), (6400, 6430), (6470, 6509), (6512, 6516),
      (6528, 6571), (6576, 6601), (6608, 6618), (6656, 6678), (6688, 6740), (6784, 6793),
      (6800, 6809), (6823, 6823), (6917, 6963), (6981, 6988), (6992, 7001), (7043, 7072),
      (7086, 7141), (7168, 7203), (7232, 7241), (7245, 7293), (7296, 7304), (7312, 7354),
      (7357, 7359), (7401, 7404), (7406, 7411), (7413, 7414), (7418, 7418), (7424, 7615),
      (7680, 7957), (7960, 7965), (7968, 8005), (8008, 8013), (8016, 8023), (8025, 8025),
      (8027, 8027), (8029, 8029), (8031, 8061), (8064, 8116), (8118, 8124), (8126, 8126),
      (8130, 8132), (8134, 8140), (8144, 8147), (8150, 8155), (8160, 8172), (8178, 8180),
      (8182, 8188), (8304, 8305), (8308, 8313), (8319, 8329), (8336, 8348), (8450, 8450),
      (8455, 8455), (8458, 8467), (8469, 8469), (8473, 8477), (8484, 8484), (8486, 8486),
      (8488, 8488), (8490, 8493), (8495, 8505), (8508, 8511), (8517, 8521), (8526, 8526),
      (8528, 8585), (9312, 9371), (9450, 9471), (10102, 10131), (11264, 11492), (11499, 11502),
      (11506, 11507), (11517, 11517), (11520, 11557), (11559, 11559), (11565, 11565),
      (11568, 11623), (11631, 11631), (11648, 11670), (11680, 11686), (11688, 11694),
      (11696, 11702), (11704, 11710), (11712, 11718), (11720, 11726), (11728, 11734),
      (11736, 11742), (11823, 11823), (12293, 12295), (12321, 12329), (12337, 12341),
      (12344, 12348), (12353, 12438), (12445, 12447), (12449, 12538), (12540, 12543),
      (12549, 12591), (12593, 12686), (12690, 12693), (12704, 12735), (12784, 12799),
      (12832, 12841), (12872, 12879), (12881, 12895), (12928, 12937), (12977, 12991),
      (13312, 19903), (19968, 42124), (42192, 42237), (42240, 42508), (42512, 42539),
      (42560, 42606), (42623, 42653), (42656, 42735), (42775, 42783), (42786, 42888),
      (42891, 42954), (42960, 42961), (42963, 42963), (42965, 42969), (42994, 43009),
      (43011, 43013), (43015, 43018), (43020, 43042), (43056, 43061), (43072, 43123),
      (43138, 43187), (43216, 43225), (43250, 43255), (43259, 43259), (43261, 43262),
      (43264, 43301), (43312, 43334), (43360, 43388), (43396, 43442), (43471, 43481),
      (43488, 43492), (43494, 43518), (43520, 43560), (43584, 43586), (43588, 43595),
      (43600, 43609), (43616, 43638), (43642, 43642), (43646, 43695), (43697, 43697),
      (43701, 43702), (43705, 43709), (43712, 43712), (43714, 43714), (43739, 43741),
      (43744, 43754), (43762, 43764), (43777, 43782), (43785, 43790), (43793, 43798),
      (43808, 43814), (43816, 43822), (43824, 43866), (43868, 43881), (43888, 44002),
      (44016, 44025), (44032, 55203), (55216, 55238), (55243, 55291), (63744, 64109),
      (64112, 64217), (64256, 64262), (64275, 64279), (64285, 64285), (64287, 64296),
      (64298, 64310), (64312, 64316), (64318, 64318), (64320, 64321), (64323, 64324),
      (64326, 64433), (64467, 64829), (64848, 64911), (64914, 64967), (65008, 65019),
      (65136, 65140), (65142, 65276), (65296, 65305), (65313, 65338), (65345, 65370),
      (65382, 65470), (65474, 65479), (65482, 65487), (65490, 65495), (65498, 65500),
      (65536, 65547), (65549, 65574), (65576, 65594), (65596, 65597), (65599, 65613),
      (65616, 65629), (65664, 65786), (65799, 65843), (65856, 65912), (65930, 65931),
      (66176, 66204), (66208, 66256), (66273, 66299), (66304, 66339), (66349, 66378),
      (66384, 66421), (66432, 66461), (66464, 66499), (66504, 66511), (66513, 66517),
      (66560, 66717), (66720, 66729), (66736, 66771), (66776, 66811), (66816, 66855),
      (66864, 66915), (66928, 66938), (66940, 66954), (66956, 66962), (66964, 66965),
      (66967, 66977), (66979, 66993), (66995, 67001), (67003, 67004), (67072, 67382),
      (67392, 67413), (67424, 67431), (67456, 67461), (67463, 67504), (67506, 67514),
      (67584, 67589), (67592, 67592), (67594, 67637), (67639, 67640), (67644, 67644),
      (67647, 67669), (67672, 67702), (67705, 67742), (67751, 67759), (67808, 67826),
      (67828, 67829), (67835, 67867), (67872, 67897), (67968, 68023), (68028, 68047),
      (68050, 68096), (68112, 68115), (68117, 68119), (68121, 68149), (68160, 68168),
      (68192, 68222), (68224, 68255), (68288, 68295), (68297, 68324), (68331, 68335),
      (68352, 68405), (68416, 68437), (68440, 68466), (68472, 68497), (68521, 68527),
      (68608, 68680), (68736, 68786), (68800, 68850), (68858, 68899), (68912, 68921),
      (69216, 69246), (69248, 69289), (69296, 69297), (69376, 69415), (69424, 69445),
      (69457, 69460), (69488, 69505), (69552, 69579), (69600, 69622), (69635, 69687),
      (69714, 69743), (69745, 69746), (69749, 69749), (69763, 69807), (69840, 69864),
      (69872, 69881), (69891, 69926), (69942, 69951), (69956, 69956), (69959, 69959),
      (69968, 70002), (70006, 70006), (70019, 70066), (70081, 70084), (70096, 70106),
      (70108, 70108), (70113, 70132), (70144, 70161), (70163, 70187), (70272, 70278),
      (70280, 70280), (70282, 70285), (70287, 70301), (70303, 70312), (70320, 70366),
      (70384, 70393), (70405, 70412), (70415, 70416), (70419, 70440), (70442, 70448),
      (70450, 70451), (70453, 70457), (70461, 70461), (70480, 70480), (70493, 70497),
      (70656, 70708), (70727, 70730), (70736, 70745), (70751, 70753), (70784, 70831),
      (70852, 70853), (70855, 70855), (70864, 70873), (71040, 71086), (71128, 71131),
      (71168, 71215), (71236, 71236), (71248, 71257), (71296, 71338), (71352, 71352),
      (71360, 71369), (71424, 71450), (71472, 71483), (71488, 71494), (71680, 71723),
      (71840, 71922), (71935, 71942), (71945, 71945), (71948, 71955), (71957, 71958),
      (71960, 71983), (71999, 71999), (72001, 72001), (72016, 72025), (72096, 72103),
      (72106, 72144), (72161, 72161), (72163, 72163), (72192, 72192), (72203, 72242),
      (72250, 72250), (72272, 72272), (72284, 72329), (72349, 72349), (72368, 72440),
      (72704, 72712), (72714, 72750), (72768, 72768), (72784, 72812), (72818, 72847),
      (72960, 72966), (72968, 72969), (72971, 73008), (73030, 73030), (73040, 73049),
      (73056, 73061), (73063, 73064), (73066, 73097), (73112, 73112), (73120, 73129),
      (73440, 73458), (73648, 73648), (73664, 73684), (73728, 74649), (74752, 74862),
      (74880, 75075), (77712, 77808), (77824, 78894), (82944, 83526), (92160, 92728),
      (92736, 92766), (92768, 92777), (92784, 92862), (92864, 92873), (92880, 92909),
      (92928, 92975), (92992, 92995), (93008, 93017), (93019, 93025), (93027, 93047),
      (93053, 93071), (93760, 93846), (93952, 94026), (94032, 94032), (94099, 94111),
      (94176, 94177), (94179, 94179), (94208, 100343), (100352, 101589), (101632, 101640),
      (110576, 110579), (110581, 110587), (110589, 110590), (110592, 110882), (110928, 110930),
      (110948, 110951), (110960, 111355), (113664, 113770), (113776, 113788), (113792, 113800),
      (113808, 113817), (119520, 119539), (119648, 119672), (119808, 119892), (119894, 119964),
      (119966, 119967), (119970, 119970), (119973, 119974), (119977, 119980), (119982, 119993),
      (119995, 119995), (119997, 120003), (120005, 120069), (120071, 120074), (120077, 120084),
      (120086, 120092), (120094, 120121), (120123, 120126), (120128, 120132), (120134, 120134),
      (120138, 120144), (120146, 120485), (120488, 120512), (120514, 120538), (120540, 120570),
      (120572, 120596), (120598, 120628), (120630, 120654), (120656, 120686), (120688, 120712),
      (120714, 120744), (120746, 120770), (120772, 120779), (120782, 120831), (122624, 122654),
      (123136, 123180), (123191, 123197), (123200, 123209), (123214, 123214), (123536, 123565),
      (123584, 123627), (123632, 123641), (124896, 124902), (124904, 124907), (124909, 124910),
      (124912, 124926), (124928, 125124), (125127, 125135), (125184, 125251), (125259, 125259),
      (125264, 125273), (126065, 126123), (126125, 126127), (126129, 126132), (126209, 126253),
      (126255, 126269), (126464, 126467), (126469, 126495), (126497, 126498), (126500, 126500),
      (126503, 126503), (126505, 126514), (126516, 126519), (126521, 126521), (126523, 126523),
      (126530, 126530), (126535, 126535), (126537, 126537), (126539, 126539), (126541, 126543),
      (126545, 126546), (126548, 126548), (126551, 126551), (126553, 126553), (126555, 126555),
      (126557, 126557), (126559, 126559), (126561, 126562), (126564, 126564), (126567, 126570),
      (126572, 126578), (126580, 126583), (126585, 126588), (126590, 126590), (126592, 126601),
      (126603, 126619), (126625, 126627), (126629, 126633), (126635, 126651), (127232, 127244),
      (130032, 130041), (131072, 173791), (173824, 177976), (177984, 178205), (178208, 183969),
      (183984, 191456), (194560, 195101), (196608, 201546)]"

text \<open>The class \<open>\w\<close> of a \<open>str\<close> pattern: alphanumeric or the underscore.\<close>

definition is_word :: "nat \<Rightarrow> bool" where
  "is_word c =
     (if c < 128
      then (48 \<le> c \<and> c \<le> 57) \<or> (65 \<le> c \<and> c \<le> 90) \<or> c = 95 \<or> (97 \<le> c \<and> c \<le> 122)
      else in_ranges alnum_ranges c)"

text \<open>
  \<open>re.IGNORECASE\<close> on a \<open>str\<close> pattern: a character of the text matches a class
  when one of its case variants is in the class.  The variants are listed for the
  characters that have an ASCII letter among them: the ASCII letters, and the four
  code points U+0130, U+0131 (variants of \<open>i\<close>), U+017F (of \<open>s\<close>) and U+212A (of
  \<open>k\<close>).  The classes of this program are made of ASCII characters and of
  \<open>\s\<close>, \<open>\d\<close>, \<open>\w\<close>, on which the other case pairs of Unicode make no
  difference.
\<close>

definition case_variants :: "nat \<Rightarrow> nat list" where
  "case_variants c =
     (if c = 105 \<or> c = 73 \<or> c = 304 \<or> c = 305 then [105, 73, 304, 305]
      else if c = 115 \<or> c = 83 \<or> c = 383 then [115, 83, 383]
      else if c = 107 \<or> c = 75 \<or> c = 8490 then [107, 75, 8490]
      else if 65 \<le> c \<and> c \<le> 90 then [c, c + 32]
      else if 97 \<le> c \<and> c \<le> 122 then [c, c - 32]
      else [c])"

definition in_class :: "bool \<Rightarrow> (nat \<Rightarrow> bool) \<Rightarrow> nat \<Rightarrow> bool" where
  "in_class ignorecase P c = (if ignorecase then list_ex P (case_variants c) else P c)"

text \<open>Classes as they are written in a pattern.\<close>

definition one :: "char \<Rightarrow> nat \<Rightarrow> bool" where
  "one a c = (c = of_char a)"

definition rng :: "char \<Rightarrow> char \<Rightarrow> nat \<Rightarrow> bool" where
  "rng a b c = (of_char a \<le> c \<and> c \<le> of_char b)"

definition any_of :: "(nat \<Rightarrow> bool) list \<Rightarrow> nat \<Rightarrow> bool" where
  "any_of Ps c = list_ex (\<lambda>P. P c) Ps"

definition none_of :: "(nat \<Rightarrow> bool) list \<Rightarrow> nat \<Rightarrow> bool" where
  "none_of Ps c = (\<not> any_of Ps c)"

section \<open>Regular expressions\<close>

text \<open>
  The part of the pattern language that the program uses: a character of a class,
  concatenation, alternation (the left branch first), the greedy star, a capturing
  group, a lookahead \<open>(?=...)\<close> and the word boundary \<open>\b\<close>.  The other
  operators are written with these.
\<close>

datatype regex =
    Chars "nat \<Rightarrow> bool"
  | Eps
  | Cat regex regex
  | Alt regex regex
  | Star regex
  | Group regex
  | Ahead regex
  | WordB

definition Opt :: "regex \<Rightarrow> regex" where
  "Opt r = Alt r Eps"

definition Plus :: "regex \<Rightarrow> regex" where
  "Plus r = Cat r (Star r)"

fun seq :: "regex list \<Rightarrow> regex" where
  "seq [] = Eps"
| "seq [r] = r"
| "seq (r # rs) = Cat r (seq rs)"

text \<open>A literal string of the pattern, and \<open>r{n}\<close>, \<open>r{m,n}\<close>, \<open>r{m,}\<close>.\<close>

definition lit :: "string \<Rightarrow> regex" where
  "lit s = seq (map (\<lambda>a. Chars (one a)) s)"

fun times :: "nat \<Rightarrow> regex \<Rightarrow> regex" where
  "times 0 r = Eps"
| "times (Suc 0) r = r"
| "times (Suc n) r = Cat r (times n r)"

fun upto_times :: "nat \<Rightarrow> regex \<Rightarrow> regex" where
  "upto_times 0 r = Eps"
| "upto_times (Suc n) r = Opt (Cat r (upto_times n r))"

definition between :: "nat \<Rightarrow> nat \<Rightarrow> regex \<Rightarrow> regex" where
  "between m n r = Cat (times m r) (upto_times (n - m) r)"

definition at_least :: "nat \<Rightarrow> regex \<Rightarrow> regex" where
  "at_least m r = Cat (times m r) (Star r)"

text \<open>
  The state of a match attempt: the character before the current position (for
  \<open>\b\<close>), the rest of the text, and the groups captured so far.
\<close>

datatype mstate = MState (m_prev: "nat option") (m_rest: pystr) (m_groups: "pystr list")

definition at_word_boundary :: "nat option \<Rightarrow> pystr \<Rightarrow> bool" where
  "at_word_boundary prev s =
     ((case prev of None \<Rightarrow> False | Some c \<Rightarrow> is_word c) \<noteq>
      (case s of [] \<Rightarrow> False | c # _ \<Rightarrow> is_word c))"

text \<open>
  All the ways a pattern matches at a position, in the order in which the backtracking
  matcher of \<open>re\<close> tries them: the head of the list is the match \<open>re\<close> returns.  An
  iteration of a star that consumes nothing is not repeated.
\<close>

function matches :: "bool \<Rightarrow> regex \<Rightarrow> mstate \<Rightarrow> mstate list" where
  "matches ic (Chars P) st =
     (case m_rest st of
        [] \<Rightarrow> []
      | c # s \<Rightarrow> if in_class ic P c then [MState (Some c) s (m_groups st)] else [])"
| "matches ic Eps st = [st]"
| "matches ic (Cat a b) st = concat (map (matches ic b) (matches ic a st))"
| "matches ic (Alt a b) st = matches ic a st @ matches ic b st"
| "matches ic (Star r) st =
     concat (map (\<lambda>st'. if length (m_rest st') < length (m_rest st)
                          then matches ic (Star r) st' else [])
                 (matches ic r st)) @ [st]"
| "matches ic (Group r) st =
     map (\<lambda>st'. MState (m_prev st') (m_rest st')
                  (m_groups st' @ [take (length (m_rest st) - length (m_rest st')) (m_rest st)]))
         (matches ic r st)"
| "matches ic (Ahead r) st = (if matches ic r st = [] then [] else [st])"
| "matches ic WordB st = (if at_word_boundary (m_prev st) (m_rest st) then [st] else [])"
  by pat_completeness auto
termination
  by (relation "inv_image (less_than <*lex*> less_than)
                  (\<lambda>(ic, r, st). (size r, length (m_rest st)))") auto

text \<open>
  An element of the list \<open>re.findall\<close> returns: the whole match when the pattern has
  no group, the group when it has one, the tuple of the groups when it has more.
\<close>

datatype match_item = Str pystr | Tup "pystr list"

definition item_of :: "pystr \<Rightarrow> pystr list \<Rightarrow> match_item" where
  "item_of whole groups =
     (case groups of [] \<Rightarrow> Str whole | [g] \<Rightarrow> Str g | _ \<Rightarrow> Tup groups)"

text \<open>
  \<open>re.findall\<close> from a position: the leftmost match, then the search goes on where
  the match ended.  After an empty match the search moves one character on; no pattern
  of this program matches the empty string.
\<close>

function findall_from :: "bool \<Rightarrow> regex \<Rightarrow> nat option \<Rightarrow> pystr \<Rightarrow> match_item list" where
  "findall_from ic r prev s =
     (case matches ic r (MState prev s []) of
        [] \<Rightarrow> (case s of [] \<Rightarrow> [] | c # s' \<Rightarrow> findall_from ic r (Some c) s')
      | st # _ \<Rightarrow>
          item_of (take (length s - length (m_rest st)) s) (m_groups st) #
          (if length (m_rest st) < length s then findall_from ic r (m_prev st) (m_rest st)
           else case s of [] \<Rightarrow> [] | c # s' \<Rightarrow> findall_from ic r (Some c) s'))"
  by pat_completeness auto
termination
  by (relation "measure (\<lambda>(ic, r, prev, s). length s)") auto

definition re_findall :: "bool \<Rightarrow> regex \<Rightarrow> pystr \<Rightarrow> match_item list" where
  "re_findall ic r s = findall_from ic r None s"

text \<open>\<open>re.sub(pattern, repl, text)\<close> from a position, for a replacement without group references.\<close>

function sub_from :: "regex \<Rightarrow> pystr \<Rightarrow> nat option \<Rightarrow> pystr \<Rightarrow> pystr" where
  "sub_from r repl prev s =
     (case matches False r (MState prev s []) of
        [] \<Rightarrow> (case s of [] \<Rightarrow> [] | c # s' \<Rightarrow> c # sub_from r repl (Some c) s')
      | st # _ \<Rightarrow>
          repl @
          (if length (m_rest st) < length s then sub_from r repl (m_prev st) (m_rest st)
           else case s of [] \<Rightarrow> [] | c # s' \<Rightarrow> c # sub_from r repl (Some c) s'))"
  by pat_completeness auto
termination
  by (relation "measure (\<lambda>(r, repl, prev, s). length s)") auto

definition re_sub :: "regex \<Rightarrow> pystr \<Rightarrow> pystr \<Rightarrow> pystr" where
  "re_sub r repl s = sub_from r repl None s"

text \<open>
  \<open>str.replace(old, new)\<close> for a non-empty \<open>old\<close>: the occurrences are replaced
  from left to right and do not overlap.
\<close>

function str_replace :: "pystr \<Rightarrow> pystr \<Rightarrow> pystr \<Rightarrow> pystr" where
  "str_replace old new s =
     (case s of
        [] \<Rightarrow> []
      | c # s' \<Rightarrow>
          if old \<noteq> [] \<and> take (length old) s = old
          then new @ str_replace old new (drop (length old) s)
          else c # str_replace old new s')"
  by pat_completeness auto
termination
  by (relation "measure (\<lambda>(old, new, s). length s)") auto

text \<open>\<open>str.strip()\<close>.\<close>

definition strip :: "pystr \<Rightarrow> pystr" where
  "strip s = rev (dropWhile is_space (rev (dropWhile is_space s)))"

section \<open>The pattern table of \<open>DocumentParser\<close>\<close>

text \<open>The classes and sub-patterns that occur several times in \<open>self.patterns\<close>.\<close>

definition ws :: regex where
  "ws = Chars is_space"

definition digit :: regex where
  "digit = Chars is_digit"

text \<open>\<open>[A-Z0-9-]+\<close>\<close>

definition code_chars :: regex where
  "code_chars = Plus (Chars (any_of [rng CHR ''A'' CHR ''Z'', rng CHR ''0'' CHR ''9'', one CHR ''-'']))"

text \<open>\<open>\d{1,2}[/-]\d{1,2}[/-]\d{2,4}\<close>\<close>

definition date_body :: regex where
  "date_body =
     seq [between 1 2 digit, Chars (any_of [one CHR ''/'', one CHR ''-'']),
          between 1 2 digit, Chars (any_of [one CHR ''/'', one CHR ''-'']),
          between 2 4 digit]"

text \<open>\<open>\$\d+(?:\.\d{2})?\<close>\<close>

definition money_body :: regex where
  "money_body = seq [lit ''$'', Plus digit, Opt (Cat (lit ''.'') (times 2 digit))]"

text \<open>\<open>[A-Z][a-z]+\<close>\<close>

definition capitalised :: regex where
  "capitalised = Cat (Chars (rng CHR ''A'' CHR ''Z'')) (Plus (Chars (rng CHR ''a'' CHR ''z'')))"

text \<open>\<open>[A-Za-z\s]+\<close>\<close>

definition letters_spaces :: regex where
  "letters_spaces = Plus (Chars (any_of [rng CHR ''A'' CHR ''Z'', rng CHR ''a'' CHR ''z'', is_space]))"

text \<open>\<open>[A-Za-z0-9\s,&]+\<close>\<close>

definition party_chars :: regex where
  "party_chars =
     Plus (Chars (any_of [rng CHR ''A'' CHR ''Z'', rng CHR ''a'' CHR ''z'', rng CHR ''0'' CHR ''9'',
                          is_space, one CHR '','', one CHR ''&'']))"

text \<open>\<open>([a-zA-Z0-9._%+-]+@[a-zA-Z0-9.-]+\.[a-zA-Z]{2,})\<close>\<close>

definition email_pattern :: regex where
  "email_pattern =
     Group (seq [Plus (Chars (any_of [rng CHR ''a'' CHR ''z'', rng CHR ''A'' CHR ''Z'',
                                      rng CHR ''0'' CHR ''9'', one CHR ''.'', one CHR ''_'',
                                      one CHR ''%'', one CHR ''+'', one CHR ''-''])),
                 lit ''@'',
                 Plus (Chars (any_of [rng CHR ''a'' CHR ''z'', rng CHR ''A'' CHR ''Z'',
                                      rng CHR ''0'' CHR ''9'', one CHR ''.'', one CHR ''-''])),
                 lit ''.'',
                 at_least 2 (Chars (any_of [rng CHR ''a'' CHR ''z'', rng CHR ''A'' CHR ''Z'']))])"

text \<open>\<open>(\d+\s+[\w\s]+,?\s*[A-Za-z\s]+,?\s*[A-Z]{2}\s*\d{5})\<close>\<close>

definition address_pattern :: regex where
  "address_pattern =
     Group (seq [Plus digit, Plus ws, Plus (Chars (any_of [is_word, is_space])),
                 Opt (lit '',''), Star ws, letters_spaces, Opt (lit '',''), Star ws,
                 times 2 (Chars (rng CHR ''A'' CHR ''Z'')), Star ws, times 5 digit])"

text \<open>
  A pattern of the shape \<open>(?:k1|k2|...):?\s*(body)\<close>: one of the keywords, an
  optional colon, white space, and the captured body.
\<close>

fun alts :: "regex list \<Rightarrow> regex" where
  "alts [] = Eps"
| "alts [r] = r"
| "alts (r # rs) = Alt r (alts rs)"

definition labelled :: "string list \<Rightarrow> regex \<Rightarrow> regex" where
  "labelled keywords body = seq [alts (map lit keywords), Opt (lit '':''), Star ws, Group body]"

text \<open>\<open>self.patterns['invoice']\<close>, in the order of the dictionary.\<close>

definition invoice_patterns :: "(string \<times> regex) list" where
  "invoice_patterns =
     [(''invoice_number'',
         seq [Alt (lit ''invoice'') (lit ''inv''), Opt (lit ''.''), Star ws, Opt (lit ''#''),
              Star ws, Group code_chars]),
      (''date'', labelled [''date'', ''invoice date''] date_body),
      (''due_date'', labelled [''due date'', ''due''] date_body),
      (''total_amount'', labelled [''total'', ''amount due'', ''balance''] money_body),
      (''tax'', labelled [''tax'', ''vat''] money_body),
      (''first_name'', labelled [''first name'', ''given name''] capitalised),
      (''last_name'', labelled [''last name'', ''surname'', ''family name''] capitalised),
      (''email'', email_pattern),
      (''product_id'', labelled [''product id'', ''product code'', ''item #''] code_chars),
      (''qty'', labelled [''quantity'', ''qty''] (Plus digit)),
      (''amount'', labelled [''amount'', ''price''] money_body),
      (''invoice_date'', labelled [''invoice date'', ''date issued''] date_body),
      (''address'', address_pattern),
      (''city'',
         Cat (labelled [''city''] letters_spaces)
             (Ahead (Alt (Cat (Star ws) (lit '',''))
                         (Cat (Star ws) (times 2 (Chars (rng CHR ''A'' CHR ''Z''))))))),
      (''stock_code'', labelled [''stock code'', ''sku''] code_chars),
      (''job'', labelled [''job'', ''project'', ''work order''] code_chars)]"

text \<open>\<open>self.patterns['receipt']\<close>\<close>

definition receipt_patterns :: "(string \<times> regex) list" where
  "receipt_patterns =
     [(''date'', labelled [''date''] date_body),
      (''total'', labelled [''total'', ''amount''] money_body),
      (''payment_method'', labelled [''payment method'', ''paid with''] letters_spaces)]"

text \<open>\<open>self.patterns['contract']\<close>\<close>

definition contract_patterns :: "(string \<times> regex) list" where
  "contract_patterns =
     [(''contract_id'',
         seq [Alt (lit ''contract'') (lit ''agreement''), Star ws, Opt (lit ''#''), Star ws,
              Group code_chars]),
      (''date'', labelled [''date'', ''effective date''] date_body),
      (''parties'',
         seq [Alt (lit ''between'') (lit ''parties''), Opt (lit '':''), Star ws, Group party_chars,
              seq [Plus ws, lit ''and'', Plus ws], Group party_chars]),
      (''amount'', labelled [''amount'', ''value''] money_body),
      (''term'',
         labelled [''term'', ''duration'']
           (seq [Plus digit, Plus ws,
                 alts [Cat (lit ''year'') (Opt (lit ''s'')), Cat (lit ''month'') (Opt (lit ''s'')),
                       Cat (lit ''day'') (Opt (lit ''s''))]])),
      (''buyer'', labelled [''buyer'', ''client''] party_chars),
      (''supplier'', labelled [''supplier'', ''vendor''] party_chars)]"

text \<open>\<open>self.patterns['contact']\<close>\<close>

definition contact_patterns :: "(string \<times> regex) list" where
  "contact_patterns =
     [(''email'', email_pattern),
      (''phone'',
         Group (seq [Opt (lit ''+''), between 1 3 digit,
                     Opt (Chars (any_of [one CHR ''-'', one CHR ''.'', is_space])),
                     Opt (lit ''(''), times 3 digit, Opt (lit '')''),
                     Opt (Chars (any_of [one CHR ''-'', one CHR ''.'', is_space])),
                     times 3 digit,
                     Opt (Chars (any_of [one CHR ''-'', one CHR ''.'', is_space])),
                     times 4 digit])),
      (''website'',
         Group (seq [lit ''http'', Opt (lit ''s''), lit ''://'', Plus (Chars (none_of [is_space]))])),
      (''name'', labelled [''name'', ''contact''] (seq [capitalised, Plus ws, capitalised])),
      (''company'',
         labelled [''company'', ''firm'', ''organization'']
           (Plus (Chars (any_of [rng CHR ''A'' CHR ''Z'', rng CHR ''a'' CHR ''z'',
                                 rng CHR ''0'' CHR ''9'', is_space, one CHR ''&'', one CHR ''.'',
                                 one CHR '',''])))),
      (''address'', address_pattern),
      (''zip_code'',
         seq [WordB, times 5 digit, Opt (Cat (lit ''-'') (times 4 digit)), WordB])]"

text \<open>\<open>self.patterns['general']\<close>\<close>

definition general_patterns :: "(string \<times> regex) list" where
  "general_patterns =
     [(''currency'',
         Group (seq [lit ''$'', Plus digit, Star (Cat (lit '','') (times 3 digit)),
                     Opt (Cat (lit ''.'') (times 2 digit))])),
      (''percentage'',
         Group (seq [Plus digit, Opt (Cat (lit ''.'') (Plus digit)), lit ''%''])),
      (''date'', Group date_body)]"

definition patterns :: "(pystr \<times> (string \<times> regex) list) list" where
  "patterns =
     [(U ''invoice'', invoice_patterns), (U ''receipt'', receipt_patterns),
      (U ''contract'', contract_patterns), (U ''contact'', contact_patterns),
      (U ''general'', general_patterns)]"

section \<open>\<open>extract_with_patterns\<close>\<close>

text \<open>
  The loop body: a field enters \<open>results\<close> when \<open>re.findall\<close> returns a non-empty
  list.  \<open>list(set(matches))\<close> keeps one copy of each item, in an order Python does not
  specify; \<open>remdups\<close> stands for it, and nothing below depends on the order.
\<close>

definition add_field ::
  "pystr \<Rightarrow> string \<times> regex \<Rightarrow> (string \<rightharpoonup> match_item list) \<Rightarrow> (string \<rightharpoonup> match_item list)"
where
  "add_field text fp results =
     (let matches = re_findall True (snd fp) text
      in if matches \<noteq> [] then results(fst fp \<mapsto> remdups matches) else results)"

text \<open>The table selected by \<open>doc_type\<close>, after the fallback to \<open>general\<close>.\<close>

definition rules_for :: "pystr \<Rightarrow> (string \<times> regex) list" where
  "rules_for doc_type =
     (case map_of patterns (if doc_type \<notin> set (map fst patterns) then U ''general'' else doc_type) of
        None \<Rightarrow> []
      | Some rules \<Rightarrow> rules)"

definition extract_with_patterns :: "pystr \<Rightarrow> pystr \<Rightarrow> (string \<rightharpoonup> match_item list)" where
  "extract_with_patterns text doc_type = fold (add_field text) (rules_for doc_type) Map.empty"

section \<open>\<open>clean_text\<close>\<close>

text \<open>\<open>Page\s+\d+\s+of\s+\d+\<close>\<close>

definition page_footer :: regex where
  "page_footer = seq [lit ''Page'', Plus ws, Plus digit, Plus ws, lit ''of'', Plus ws, Plus digit]"

text \<open>\<open>Confidential|Proprietary\<close>\<close>

definition banner :: regex where
  "banner = Alt (lit ''Confidential'') (lit ''Proprietary'')"

text \<open>
  The statements of \<open>clean_text\<close> in their order.  65533 is U+FFFD, the replacement
  character; 8211 and 8212 are the en dash and the em dash; 34 and 39 are the double
  and the single quote (the first \<open>replace\<close> of each quote line replaces the quote by
  itself).
\<close>

definition clean_text :: "pystr \<Rightarrow> pystr" where
  "clean_text text =
     (if text = [] then []
      else
        let text = re_sub page_footer [] text;
            text = re_sub banner [] text;
            text = re_sub (Plus ws) [32] text;
            text = re_sub (Chars (\<lambda>c. c = 65533)) [] text;
            text = str_replace [34] [34] text;
            text = str_replace [34, 34] [34] text;
            text = str_replace [34, 34] [34] text;
            text = str_replace [39] [39] text;
            text = str_replace [39, 39] [39] text;
            text = str_replace [39, 39] [39] text;
            text = str_replace [8211] [45] text;
            text = str_replace [8212] [45] text
        in strip text)"

text \<open>The character before position \<open>i\<close> of a text, if there is one.\<close>

definition char_before :: "pystr \<Rightarrow> nat \<Rightarrow> nat option" where
  "char_before s i = (if i = 0 then None else Some (s ! (i - 1)))"

section \<open>Prediction needs a trained model\<close>

text \<open>
  C5.  Whatever the text, \<open>predict_document_type\<close> on a state whose \<open>is_trained\<close>
  flag is false raises \<open>ValueError("Model must be trained before prediction")\<close>: it
  returns no label and falls back to no default type.
\<close>

theorem predict_untrained_raises:
  assumes "\<not> is_trained s"
  shows "predict_document_type sk s text =
           Inl (PyExc ''ValueError'' (U ''Model must be trained before prediction''))"
  using assms by (simp add: predict_document_type_def)

theorem predict_untrained_raises_witness:
  "\<not> is_trained (init_state toy_sklearn) \<and>
   predict_document_type toy_sklearn (init_state toy_sklearn) (U ''Invoice #1'') =
     Inl (PyExc ''ValueError'' (U ''Model must be trained before prediction''))"
proof -
  have h: "\<not> is_trained (init_state toy_sklearn)"
    by (simp add: init_state_def)
  show ?thesis
    using h predict_untrained_raises [OF h, of toy_sklearn "U ''Invoice #1''"] by simp
qed

section \<open>Persistence of the model\<close>

lemma load_body_raises_iff: "(\<exists>e. load_body s entry = Inl e) \<longleftrightarrow> corrupt entry"
  by (cases entry) (simp_all add: load_body_def corrupt_def split: option.splits)

lemma load_body_model_data: "load_body s0 (Pickled (model_data_of s)) = Inr s"
  by (simp add: load_body_def model_data_of_def)

lemma save_model_ok:
  assumes "fst (save_model os s path fs) = None"
  shows "snd (save_model os s path fs) = fs(path \<mapsto> Pickled (model_data_of s))"
  using assms by (auto simp: save_model_def split: if_splits option.splits)

text \<open>
  C10.  Whatever the path, \<open>save_model\<close> on a state whose \<open>is_trained\<close> flag is
  false raises \<open>ValueError("Model must be trained before saving")\<close> and leaves the
  file system as it was: no artifact is written, so a model is saved from the trained
  state only.
\<close>

theorem save_untrained_raises:
  assumes "\<not> is_trained s"
  shows "save_model os s path fs =
           (Some (PyExc ''ValueError'' (U ''Model must be trained before saving'')), fs)"
  using assms by (simp add: save_model_def)

theorem save_untrained_raises_witness:
  "\<not> is_trained (init_state toy_sklearn) \<and>
   save_model toy_os (init_state toy_sklearn) (U ''models/m.joblib'')
     (Map.empty :: (nat, nat, pystr list) filesystem) =
     (Some (PyExc ''ValueError'' (U ''Model must be trained before saving'')), Map.empty)"
proof -
  have h: "\<not> is_trained (init_state toy_sklearn)"
    by (simp add: init_state_def)
  from save_untrained_raises [OF h, of toy_os "U ''models/m.joblib''" Map.empty] h
  show ?thesis by blast
qed

text \<open>
  C3.  When \<open>save_model\<close> on a trained state returns normally, \<open>load_model\<close> of the
  same path, into any instance, restores that state: the loaded instance predicts the
  same label (or raises the same exception) on every text and has the same
  \<open>is_trained\<close>, \<open>training_history\<close> and \<open>last_training_samples\<close>.
\<close>

theorem save_load_roundtrip:
  assumes "is_trained s" and "fst (save_model os s path fs) = None"
  shows "load_model sk s0 path (snd (save_model os s path fs)) = Inr s \<and>
         (\<forall>s'. load_model sk s0 path (snd (save_model os s path fs)) = Inr s' \<longrightarrow>
            (\<forall>text. predict_document_type sk s' text = predict_document_type sk s text) \<and>
            is_trained s' = is_trained s \<and>
            training_history s' = training_history s \<and>
            last_training_samples s' = last_training_samples s)"
proof -
  have "load_model sk s0 path (snd (save_model os s path fs)) = Inr s"
    using assms(2) by (simp add: save_model_ok load_model_def load_body_model_data)
  then show ?thesis by simp
qed

theorem save_load_roundtrip_witness:
  "is_trained toy_trained \<and>
   fst (save_model toy_os toy_trained (U ''models/m.joblib'') Map.empty) = None \<and>
   load_model toy_sklearn (init_state toy_sklearn) (U ''models/m.joblib'')
     (snd (save_model toy_os toy_trained (U ''models/m.joblib'') Map.empty)) = Inr toy_trained"
proof -
  have h1: "is_trained toy_trained"
    by (simp add: toy_trained_def)
  have h2: "fst (save_model toy_os toy_trained (U ''models/m.joblib'') Map.empty) = None"
    by (simp add: save_model_def toy_trained_def toy_os_def)
  from save_load_roundtrip [OF h1 h2, of toy_sklearn "init_state toy_sklearn"]
  have "load_model toy_sklearn (init_state toy_sklearn) (U ''models/m.joblib'')
     (snd (save_model toy_os toy_trained (U ''models/m.joblib'') Map.empty)) = Inr toy_trained"
    by (rule conjunct1)
  with h1 h2 show ?thesis by blast
qed

text \<open>
  C4, as claimed, fails: \<open>load_model\<close> returns at once when the path does not exist,
  so a trained instance stays trained.
\<close>

theorem load_missing_keeps_trained_counterexample:
  "(Map.empty :: (nat, nat, pystr list) filesystem) (U ''missing.joblib'') = None \<and>
   load_model toy_sklearn toy_trained (U ''missing.joblib'') Map.empty = Inr toy_trained \<and>
   is_trained toy_trained"
  by (simp add: load_model_def toy_trained_def)

text \<open>
  C4, amended.  \<open>load_model\<close> never raises.  On a path that does not exist it leaves
  the state as it is.  On a corrupt artifact it replaces the vectorizer, the classifier
  and the label encoder by new ones and sets \<open>is_trained\<close> to false.
\<close>

theorem load_model_missing_or_corrupt:
  "(\<exists>s'. load_model sk s path fs = Inr s') \<and>
   (fs path = None \<longrightarrow> load_model sk s path fs = Inr s) \<and>
   (\<forall>entry. fs path = Some entry \<and> corrupt entry \<longrightarrow>
      load_model sk s path fs = Inr (reset_components sk s) \<and>
      \<not> is_trained (reset_components sk s) \<and>
      vectorizer (reset_components sk s) = new_vectorizer sk \<and>
      classifier (reset_components sk s) = new_random_forest sk \<and>
      label_encoder (reset_components sk s) = new_label_encoder sk)"
proof (intro conjI allI impI)
  show "\<exists>s'. load_model sk s path fs = Inr s'"
    by (simp add: load_model_def split: option.splits sum.splits)
next
  assume "fs path = None"
  then show "load_model sk s path fs = Inr s"
    by (simp add: load_model_def)
next
  fix entry
  assume h: "fs path = Some entry \<and> corrupt entry"
  then obtain e where "load_body s entry = Inl e"
    using load_body_raises_iff [of s entry] by blast
  with h show "load_model sk s path fs = Inr (reset_components sk s)"
    by (simp add: load_model_def)
qed (simp_all add: reset_components_def)

theorem load_model_missing_or_corrupt_witness:
  "[U ''m.joblib'' \<mapsto> Unreadable] (U ''m.joblib'') =
     Some (Unreadable :: (nat, nat, pystr list) fs_entry) \<and>
   corrupt (Unreadable :: (nat, nat, pystr list) fs_entry) \<and>
   load_model toy_sklearn toy_trained (U ''m.joblib'') [U ''m.joblib'' \<mapsto> Unreadable] =
     Inr (reset_components toy_sklearn toy_trained) \<and>
   \<not> is_trained (reset_components toy_sklearn toy_trained) \<and>
   (Map.empty :: (nat, nat, pystr list) filesystem) (U ''missing.joblib'') = None \<and>
   load_model toy_sklearn toy_trained (U ''missing.joblib'') Map.empty = Inr toy_trained"
proof -
  have h1: "[U ''m.joblib'' \<mapsto> Unreadable] (U ''m.joblib'') =
              Some (Unreadable :: (nat, nat, pystr list) fs_entry)"
    by simp
  have h2: "corrupt (Unreadable :: (nat, nat, pystr list) fs_entry)"
    by (simp add: corrupt_def)
  have h3: "(Map.empty :: (nat, nat, pystr list) filesystem) (U ''missing.joblib'') = None"
    by simp
  note a = load_model_missing_or_corrupt
             [of toy_sklearn toy_trained "U ''m.joblib''" "[U ''m.joblib'' \<mapsto> Unreadable]"]
  note b = load_model_missing_or_corrupt
             [of toy_sklearn toy_trained "U ''missing.joblib''" Map.empty]
  from a h1 h2
  have c: "load_model toy_sklearn toy_trained (U ''m.joblib'') [U ''m.joblib'' \<mapsto> Unreadable] =
             Inr (reset_components toy_sklearn toy_trained) \<and>
           \<not> is_trained (reset_components toy_sklearn toy_trained)"
    by blast
  from b h3
  have d: "load_model toy_sklearn toy_trained (U ''missing.joblib'') Map.empty = Inr toy_trained"
    by blast
  from h1 h2 h3 c d show ?thesis by blast
qed

section \<open>The training history\<close>

lemma train_model_success:
  assumes "train_model sk now df s = (s', lg)" and "train_succeeded lg"
  shows "training_history s' =
           training_history s @ [\<lparr>timestamp = now, samples = sample_count sk df\<rparr>] \<and>
         last_training_samples s' = sample_count sk df \<and> is_trained s'"
  using assms unfolding train_model_def sample_count_def Let_def
  by (auto simp: train_succeeded_def split: if_splits sum.splits prod.splits)

lemma train_model_failure:
  assumes "train_model sk now df s = (s', lg)" and "\<not> train_succeeded lg"
  shows "training_history s' = training_history s \<and>
         last_training_samples s' = last_training_samples s \<and> is_trained s' = is_trained s"
  using assms unfolding train_model_def sample_count_def Let_def
  by (auto simp: train_succeeded_def split: if_splits sum.splits prod.splits)

lemma toy_log1:
  "snd (train_model toy_sklearn (U ''t1'') (Some (toy_frame 12)) (init_state toy_sklearn)) = Trained"
  by (simp add: train_model_def toy_sklearn_def toy_frame_def fit_and_report_def Let_def)

lemma toy_log2:
  "snd (train_model toy_sklearn (U ''t2'') (Some (toy_frame 15)) toy_once) = Trained"
  by (simp add: train_model_def toy_sklearn_def toy_frame_def fit_and_report_def Let_def)

text \<open>
  C9.  A successful \<open>train_model\<close> call appends one record, the time and the sample
  count of the call, at the end of \<open>training_history\<close>, keeps the records before it,
  and sets \<open>last_training_samples\<close> to the sample count of the call.  So two
  successful calls in a row leave the history two records longer, and
  \<open>last_training_samples\<close> is the sample count of the second call.
\<close>

theorem train_history_growth:
  assumes "train_model sk now1 df1 s = (s1, lg1)" and "train_succeeded lg1"
    and "train_model sk now2 df2 s1 = (s2, lg2)" and "train_succeeded lg2"
  shows "training_history s1 =
           training_history s @ [\<lparr>timestamp = now1, samples = sample_count sk df1\<rparr>] \<and>
         last_training_samples s1 = sample_count sk df1 \<and>
         training_history s2 =
           training_history s @ [\<lparr>timestamp = now1, samples = sample_count sk df1\<rparr>,
                                 \<lparr>timestamp = now2, samples = sample_count sk df2\<rparr>] \<and>
         length (training_history s2) = length (training_history s) + 2 \<and>
         last_training_samples s2 = sample_count sk df2"
  using train_model_success [OF assms(1,2)] train_model_success [OF assms(3,4)] by simp

theorem train_history_growth_witness:
  "train_model toy_sklearn (U ''t1'') (Some (toy_frame 12)) (init_state toy_sklearn) =
     (toy_once, Trained) \<and>
   train_succeeded Trained \<and>
   train_model toy_sklearn (U ''t2'') (Some (toy_frame 15)) toy_once = (toy_twice, Trained) \<and>
   training_history toy_twice =
     [\<lparr>timestamp = U ''t1'', samples = 12\<rparr>, \<lparr>timestamp = U ''t2'', samples = 15\<rparr>] \<and>
   last_training_samples toy_twice = 15"
proof -
  have h1: "train_model toy_sklearn (U ''t1'') (Some (toy_frame 12)) (init_state toy_sklearn) =
              (toy_once, Trained)"
    using toy_log1 by (simp add: toy_once_def prod_eq_iff)
  have h2: "train_succeeded Trained"
    by (simp add: train_succeeded_def)
  have h3: "train_model toy_sklearn (U ''t2'') (Some (toy_frame 15)) toy_once = (toy_twice, Trained)"
    using toy_log2 by (simp add: toy_twice_def prod_eq_iff)
  have h0: "training_history (init_state toy_sklearn) = []"
    by (simp add: init_state_def)
  have n1: "sample_count toy_sklearn (Some (toy_frame 12)) = 12"
    by (simp add: sample_count_def toy_frame_def)
  have n2: "sample_count toy_sklearn (Some (toy_frame 15)) = 15"
    by (simp add: sample_count_def toy_frame_def)
  note g = train_history_growth [OF h1 h2 h3 h2]
  from g have a: "training_history toy_twice =
     [\<lparr>timestamp = U ''t1'', samples = 12\<rparr>, \<lparr>timestamp = U ''t2'', samples = 15\<rparr>]"
    by (simp only: h0 n1 n2 append_Nil)
  from g have b: "last_training_samples toy_twice = 15"
    by (simp only: n2)
  from h1 h2 h3 a b show ?thesis by blast
qed

section \<open>Pattern extraction\<close>

declare findall_from.simps [simp del]
declare sub_from.simps [simp del]
declare str_replace.simps [simp del]

lemmas rx_defs = labelled_def money_body_def date_body_def code_chars_def capitalised_def
  letters_spaces_def party_chars_def lit_def Opt_def Plus_def ws_def digit_def between_def
  at_least_def

lemmas cls_defs = in_class_def case_variants_def one_def rng_def any_of_def none_of_def
  is_space_def is_digit_def

text \<open>\<open>re.findall\<close> finds something exactly when the pattern matches at some position.\<close>

lemma findall_from_nonempty_iff:
  "findall_from ic r prev s \<noteq> [] \<longleftrightarrow>
     (\<exists>i\<le>length s. matches ic r (MState (if i = 0 then prev else Some (s ! (i - 1))) (drop i s) []) \<noteq> [])"
proof (induction s arbitrary: prev)
  case Nil
  show ?case
    by (subst findall_from.simps) (simp split: list.splits)
next
  case (Cons c s)
  show ?case
  proof (cases "matches ic r (MState prev (c # s) [])")
    case (Cons st sts)
    then have "findall_from ic r prev (c # s) \<noteq> []"
      by (subst findall_from.simps) simp
    moreover have "\<exists>i\<le>length (c # s).
        matches ic r (MState (if i = 0 then prev else Some ((c # s) ! (i - 1))) (drop i (c # s)) []) \<noteq> []"
      using Cons by (intro exI [of _ 0]) simp
    ultimately show ?thesis by blast
  next
    case Nil
    then have "findall_from ic r prev (c # s) = findall_from ic r (Some c) s"
      by (subst findall_from.simps) simp
    also have "\<dots> \<noteq> [] \<longleftrightarrow>
        (\<exists>i\<le>length s. matches ic r (MState (if i = 0 then Some c else Some (s ! (i - 1))) (drop i s) []) \<noteq> [])"
      by (rule Cons.IH)
    also have "\<dots> \<longleftrightarrow>
        (\<exists>j\<le>length (c # s).
           matches ic r (MState (if j = 0 then prev else Some ((c # s) ! (j - 1))) (drop j (c # s)) []) \<noteq> [])"
    proof
      assume "\<exists>i\<le>length s. matches ic r (MState (if i = 0 then Some c else Some (s ! (i - 1))) (drop i s) []) \<noteq> []"
      then obtain i where i: "i \<le> length s"
        "matches ic r (MState (if i = 0 then Some c else Some (s ! (i - 1))) (drop i s) []) \<noteq> []"
        by blast
      have "(if i = 0 then Some c else Some (s ! (i - 1))) = Some ((c # s) ! (Suc i - 1))"
        by (cases i) simp_all
      with i show "\<exists>j\<le>length (c # s).
           matches ic r (MState (if j = 0 then prev else Some ((c # s) ! (j - 1))) (drop j (c # s)) []) \<noteq> []"
        by (intro exI [of _ "Suc i"]) simp
    next
      assume "\<exists>j\<le>length (c # s).
           matches ic r (MState (if j = 0 then prev else Some ((c # s) ! (j - 1))) (drop j (c # s)) []) \<noteq> []"
      then obtain j where j: "j \<le> length (c # s)"
        "matches ic r (MState (if j = 0 then prev else Some ((c # s) ! (j - 1))) (drop j (c # s)) []) \<noteq> []"
        by blast
      from j Nil obtain i where ji: "j = Suc i"
        by (cases j) auto
      have "(if i = 0 then Some c else Some (s ! (i - 1))) = Some ((c # s) ! (Suc i - 1))"
        by (cases i) simp_all
      with j ji show "\<exists>i\<le>length s. matches ic r (MState (if i = 0 then Some c else Some (s ! (i - 1))) (drop i s) []) \<noteq> []"
        by (intro exI [of _ i]) simp
    qed
    finally show ?thesis .
  qed
qed

lemma re_findall_nonempty_iff:
  "re_findall ic r s \<noteq> [] \<longleftrightarrow>
     (\<exists>i\<le>length s. matches ic r (MState (char_before s i) (drop i s) []) \<noteq> [])"
  unfolding re_findall_def char_before_def by (rule findall_from_nonempty_iff)

lemma add_field_apply:
  "add_field text (g, r) m f =
     (if f = g \<and> re_findall True r text \<noteq> [] then Some (remdups (re_findall True r text))
      else m f)"
  by (simp add: add_field_def Let_def)

lemma fold_add_field:
  "distinct (map fst rules) \<Longrightarrow>
   fold (add_field text) rules m f =
     (case map_of rules f of
        None \<Rightarrow> m f
      | Some r \<Rightarrow> if re_findall True r text \<noteq> [] then Some (remdups (re_findall True r text))
                  else m f)"
proof (induction rules arbitrary: m)
  case Nil
  show ?case by simp
next
  case (Cons x rules)
  obtain g r where x: "x = (g, r)" by (cases x)
  from Cons.prems x have d: "distinct (map fst rules)" and g: "g \<notin> fst ` set rules"
    by simp_all
  from g have none: "map_of rules g = None"
    by (simp add: map_of_eq_None_iff)
  have step: "fold (add_field text) (x # rules) m f =
                fold (add_field text) rules (add_field text (g, r) m) f"
    by (simp add: x)
  show ?case
  proof (cases "f = g")
    case True
    with none show ?thesis
      unfolding step Cons.IH [OF d] by (simp add: x add_field_apply)
  next
    case False
    then show ?thesis
      unfolding step Cons.IH [OF d] by (simp add: x add_field_apply split: option.splits)
  qed
qed

lemma rules_for_known:
  "rules_for (U ''invoice'') = invoice_patterns"
  "rules_for (U ''receipt'') = receipt_patterns"
  "rules_for (U ''contract'') = contract_patterns"
  "rules_for (U ''contact'') = contact_patterns"
  "rules_for (U ''general'') = general_patterns"
  by (simp_all add: rules_for_def patterns_def U_def)

lemma rules_for_unknown:
  "doc_type \<notin> {U ''invoice'', U ''receipt'', U ''contract'', U ''contact'', U ''general''} \<Longrightarrow>
   rules_for doc_type = general_patterns"
  by (simp add: rules_for_def patterns_def U_def)

lemma rules_for_cases:
  "rules_for doc_type \<in>
     {invoice_patterns, receipt_patterns, contract_patterns, contact_patterns, general_patterns}"
  by (auto simp: rules_for_def patterns_def U_def)

lemma distinct_fields: "distinct (map fst (rules_for doc_type))"
proof -
  have "distinct (map fst invoice_patterns)" by (simp add: invoice_patterns_def)
  moreover have "distinct (map fst receipt_patterns)" by (simp add: receipt_patterns_def)
  moreover have "distinct (map fst contract_patterns)" by (simp add: contract_patterns_def)
  moreover have "distinct (map fst contact_patterns)" by (simp add: contact_patterns_def)
  moreover have "distinct (map fst general_patterns)" by (simp add: general_patterns_def)
  ultimately show ?thesis using rules_for_cases [of doc_type] by auto
qed

lemma extract_field:
  assumes "(field, pattern) \<in> set (rules_for doc_type)"
  shows "extract_with_patterns text doc_type field =
           (if re_findall True pattern text \<noteq> [] then Some (remdups (re_findall True pattern text))
            else None)"
proof -
  from assms have "map_of (rules_for doc_type) field = Some pattern"
    by (simp add: distinct_fields)
  then show ?thesis
    by (simp add: extract_with_patterns_def fold_add_field [OF distinct_fields])
qed

end
